theory Spec2Isabelle
  imports Main
begin

section \<open>Strings and exceptions\<close>

text \<open>
  A Python \<open>str\<close> typed by the user is modelled by \<^typ>\<open>string\<close>: a list of characters,
  each standing for the code point of the same number, so the strings covered are those of
  code points U+0000 to U+00FF and \<^const>\<open>length\<close> counts code points as \<open>len\<close> does.
  The messages of the program are Ukrainian literals, outside that range; a text produced
  by the program is therefore a list of code points (\<open>ustr\<close>), and user data is embedded
  in it by \<open>ustr\<close>.
\<close>

type_synonym ustr = "nat list"

definition ustr :: "string \<Rightarrow> ustr" where
  "ustr s = map of_char s"

datatype exc =
    ValueError ustr
  | KeyError ustr
  | IndexError ustr
  | TypeError ustr
  | AttributeError ustr
  | OverflowError ustr
  | EOFError

text \<open>\<open>str.isdigit\<close> of one character: the ASCII digits and the superscripts
  U+00B2, U+00B3, U+00B9 (Numeric_Type=Digit).\<close>

definition isdigit :: "char \<Rightarrow> bool" where
  "isdigit c = (c \<in> set ''0123456789'' \<or> c = CHR 0xB2 \<or> c = CHR 0xB3 \<or> c = CHR 0xB9)"

text \<open>\<open>str.isdigit\<close>: every character is a digit and there is at least one.\<close>

definition str_isdigit :: "string \<Rightarrow> bool" where
  "str_isdigit s = (s \<noteq> [] \<and> list_all isdigit s)"

text \<open>The class \<open>\d\<close> of the \<open>re\<close> module (category Nd), and the value \<open>int\<close> gives
  such a character.\<close>

definition re_digit :: "char \<Rightarrow> bool" where
  "re_digit c = (c \<in> set ''0123456789'')"

definition digit_val :: "char \<Rightarrow> nat" where
  "digit_val c = of_char c - 48"

text \<open>\<open>str.isspace\<close> of one character, which is what \<open>str.split()\<close> splits at.\<close>

definition isspace :: "char \<Rightarrow> bool" where
  "isspace c = (c \<in> set [CHR 0x09, CHR 0x0A, CHR 0x0B, CHR 0x0C, CHR 0x0D, CHR 0x1C, CHR 0x1D,
     CHR 0x1E, CHR 0x1F, CHR 0x20, CHR 0x85, CHR 0xA0])"

text \<open>\<open>str.lower\<close> of one character.\<close>

definition lower_char :: "char \<Rightarrow> char" where
  "lower_char c = (let n = (of_char c :: nat) in
     if (65 \<le> n \<and> n \<le> 90) \<or> (192 \<le> n \<and> n \<le> 222 \<and> n \<noteq> 215) then char_of (n + 32) else c)"

definition lower :: "string \<Rightarrow> string" where
  "lower s = map lower_char s"

text \<open>
  \<open>repr\<close> of a \<open>str\<close>, which is what \<open>str\<close> of a \<open>KeyError\<close> with one argument returns:
  double quotes when the text has a single quote and no double quote, single quotes
  otherwise; the quote and the backslash escaped; control and unprintable characters as
  escapes. \<open>isprintable\<close> is that of the code points that occur here: those below U+0100
  and the Cyrillic letters of the messages.
\<close>

definition isprintable :: "nat \<Rightarrow> bool" where
  "isprintable n = (\<not> (n < 32 \<or> (127 \<le> n \<and> n \<le> 160) \<or> n = 173))"

definition hexdigit :: "nat \<Rightarrow> nat" where
  "hexdigit n = (if n < 10 then 48 + n else 87 + n)"

definition repr_char :: "nat \<Rightarrow> nat \<Rightarrow> ustr" where
  "repr_char q c =
     (if c = q \<or> c = 92 then [92, c]
      else if c = 9 then [92, 116]
      else if c = 10 then [92, 110]
      else if c = 13 then [92, 114]
      else if isprintable c then [c]
      else [92, 120, hexdigit (c div 16), hexdigit (c mod 16)])"

definition py_repr :: "ustr \<Rightarrow> ustr" where
  "py_repr s =
     (let q = (if 39 \<in> set s \<and> 34 \<notin> set s then 34 else 39)
      in [q] @ concat (map (repr_char q) s) @ [q])"

text \<open>\<open>str(e)\<close> of an exception raised with one argument.\<close>

fun str_exc :: "exc \<Rightarrow> ustr" where
  "str_exc (ValueError m) = m"
| "str_exc (KeyError m) = py_repr m"
| "str_exc (IndexError m) = m"
| "str_exc (TypeError m) = m"
| "str_exc (AttributeError m) = m"
| "str_exc (OverflowError m) = m"
| "str_exc EOFError = []"

section \<open>Fields\<close>

subsection \<open>Phone\<close>

text \<open>The message of the \<open>ValueError\<close> of the \<open>Phone.value\<close> setter
  ("Nekorektnyi format nomera telefonu. Vykorystovuite 10 tsyfr bez probiliv ta inshykh
  symvoliv.").\<close>

definition msg_phone_format :: ustr where
  "msg_phone_format = [1053, 1077, 1082, 1086, 1088, 1077, 1082, 1090, 1085, 1080, 1081, 32,
     1092, 1086, 1088, 1084, 1072, 1090, 32, 1085, 1086, 1084, 1077, 1088, 1072, 32, 1090, 1077,
     1083, 1077, 1092, 1086, 1085, 1091, 46, 32, 1042, 1080, 1082, 1086, 1088, 1080, 1089, 1090,
     1086, 1074, 1091, 1081, 1090, 1077, 32, 49, 48, 32, 1094, 1080, 1092, 1088, 32, 1073, 1077,
     1079, 32, 1087, 1088, 1086, 1073, 1110, 1083, 1110, 1074, 32, 1090, 1072, 32, 1110, 1085,
     1096, 1080, 1093, 32, 1089, 1080, 1084, 1074, 1086, 1083, 1110, 1074, 46]"

text \<open>A \<open>Phone\<close> object: its private attribute \<open>__value\<close>.\<close>

datatype Phone = PhoneObj (phone_value: string)

text \<open>The setter of the property \<open>Phone.value\<close>, on the new value.\<close>

definition Phone_value_setter :: "string \<Rightarrow> exc + Phone" where
  "Phone_value_setter v =
     (if length v = 10 \<and> str_isdigit v then Inr (PhoneObj v)
      else Inl (ValueError msg_phone_format))"

text \<open>\<open>Phone(value)\<close>: \<open>__init__\<close> goes through the setter.\<close>

definition Phone_init :: "string \<Rightarrow> exc + Phone" where
  "Phone_init v = Phone_value_setter v"

text \<open>\<open>Field.__str__\<close> on a \<open>Phone\<close>: \<open>str(self.value)\<close>.\<close>

definition Phone_str :: "Phone \<Rightarrow> string" where
  "Phone_str p = phone_value p"

text \<open>The specification's reading of a digit: one of the ten decimal digits.\<close>

definition spec_decimal_digit :: "char \<Rightarrow> bool" where
  "spec_decimal_digit c = (c \<in> set ''0123456789'')"

subsection \<open>Dates of the \<open>datetime\<close> module\<close>

text \<open>
  A \<open>date\<close> value is represented by its proleptic Gregorian ordinal (\<open>date.toordinal()\<close>,
  day 1 is 0001-01-01), between 1 and \<open>date.max.toordinal()\<close>. Its year, month and day are
  read off the ordinal as the library does; comparison, difference, the addition of a
  \<open>timedelta\<close> and \<open>weekday()\<close> are those of the ordinals.
\<close>

datatype date = date_fromordinal (toordinal: int)

definition MAXORDINAL :: int where
  "MAXORDINAL = 3652059"

definition is_leap :: "int \<Rightarrow> bool" where
  "is_leap y = (y mod 4 = 0 \<and> (y mod 100 \<noteq> 0 \<or> y mod 400 = 0))"

definition days_before_year :: "int \<Rightarrow> int" where
  "days_before_year y = (let y1 = y - 1 in y1 * 365 + y1 div 4 - y1 div 100 + y1 div 400)"

definition DAYS_IN_MONTH :: "int list" where
  "DAYS_IN_MONTH = [-1, 31, 28, 31, 30, 31, 30, 31, 31, 30, 31, 30, 31]"

definition DAYS_BEFORE_MONTH :: "int list" where
  "DAYS_BEFORE_MONTH = [-1, 0, 31, 59, 90, 120, 151, 181, 212, 243, 273, 304, 334]"

definition days_in_month :: "int \<Rightarrow> int \<Rightarrow> int" where
  "days_in_month y m = (if m = 2 \<and> is_leap y then 29 else DAYS_IN_MONTH ! nat m)"

definition days_before_month :: "int \<Rightarrow> int \<Rightarrow> int" where
  "days_before_month y m = DAYS_BEFORE_MONTH ! nat m + (if m > 2 \<and> is_leap y then 1 else 0)"

definition ymd2ord :: "int \<Rightarrow> int \<Rightarrow> int \<Rightarrow> int" where
  "ymd2ord y m d = days_before_year y + days_before_month y m + d"

definition ord2ymd :: "int \<Rightarrow> int \<times> int \<times> int" where
  "ord2ymd n0 =
     (let n = n0 - 1;
          n400 = n div 146097; n = n mod 146097;
          n100 = n div 36524; n = n mod 36524;
          n4 = n div 1461; n = n mod 1461;
          n1 = n div 365; n = n mod 365;
          y = n400 * 400 + 1 + n100 * 100 + n4 * 4 + n1
      in if n1 = 4 \<or> n100 = 4 then (y - 1, 12, 31)
         else
           let leapyear = (n1 = 3 \<and> (n4 \<noteq> 24 \<or> n100 = 3));
               m = (n + 50) div 32;
               preceding = DAYS_BEFORE_MONTH ! nat m + (if m > 2 \<and> leapyear then 1 else 0)
           in if preceding > n
              then let m' = m - 1;
                       preceding' = preceding
                         - (DAYS_IN_MONTH ! nat m' + (if m' = 2 \<and> leapyear then 1 else 0))
                   in (y, m', n - preceding' + 1)
              else (y, m, n - preceding + 1))"

definition year :: "date \<Rightarrow> int" where
  "year d = fst (ord2ymd (toordinal d))"

definition month :: "date \<Rightarrow> int" where
  "month d = fst (snd (ord2ymd (toordinal d)))"

definition day :: "date \<Rightarrow> int" where
  "day d = snd (snd (ord2ymd (toordinal d)))"

text \<open>Decimal digits of a number, and the same padded with zeros to a width.\<close>

fun digits_of :: "nat \<Rightarrow> nat \<Rightarrow> string" where
  "digits_of 0 n = []"
| "digits_of (Suc k) n =
     (if n < 10 then [char_of (48 + n)] else digits_of k (n div 10) @ [char_of (48 + n mod 10)])"

definition str_of_nat :: "nat \<Rightarrow> string" where
  "str_of_nat n = digits_of (Suc n) n"

definition zfill :: "nat \<Rightarrow> string \<Rightarrow> string" where
  "zfill w s = replicate (w - length s) CHR ''0'' @ s"

definition str_of_int :: "int \<Rightarrow> string" where
  "str_of_int i = (if i < 0 then ''-'' @ str_of_nat (nat (- i)) else str_of_nat (nat i))"

text \<open>\<open>date(y, m, d)\<close>, also \<open>datetime(y, m, d).date()\<close>: the fields are checked.\<close>

definition date_new :: "int \<Rightarrow> int \<Rightarrow> int \<Rightarrow> exc + date" where
  "date_new y m d =
     (if \<not> (1 \<le> y \<and> y \<le> 9999)
        then Inl (ValueError (ustr (''year '' @ str_of_int y @ '' is out of range'')))
      else if \<not> (1 \<le> m \<and> m \<le> 12) then Inl (ValueError (ustr ''month must be in 1..12''))
      else if \<not> (1 \<le> d \<and> d \<le> days_in_month y m)
        then Inl (ValueError (ustr ''day is out of range for month''))
      else Inr (date_fromordinal (ymd2ord y m d)))"

text \<open>\<open>d.replace(year=y)\<close>.\<close>

definition replace_year :: "date \<Rightarrow> int \<Rightarrow> exc + date" where
  "replace_year d y = date_new y (month d) (day d)"

text \<open>\<open>d + timedelta(days=n)\<close>.\<close>

definition date_add :: "date \<Rightarrow> int \<Rightarrow> exc + date" where
  "date_add d n =
     (let o' = toordinal d + n
      in if 0 < o' \<and> o' \<le> MAXORDINAL then Inr (date_fromordinal o')
         else Inl (OverflowError (ustr ''date value out of range'')))"

text \<open>\<open>(d1 - d2).days\<close>, and the comparison \<open>d1 < d2\<close>.\<close>

definition date_diff_days :: "date \<Rightarrow> date \<Rightarrow> int" where
  "date_diff_days d1 d2 = toordinal d1 - toordinal d2"

definition date_less :: "date \<Rightarrow> date \<Rightarrow> bool" where
  "date_less d1 d2 = (toordinal d1 < toordinal d2)"

text \<open>\<open>d.weekday()\<close>: Monday is 0, Sunday is 6.\<close>

definition weekday :: "date \<Rightarrow> int" where
  "weekday d = (toordinal d + 6) mod 7"

text \<open>\<open>d.strftime("%Y.%m.%d")\<close>: the year in decimal (the C library does not pad a year
  below 1000), the month and the day on two digits.\<close>

definition strftime_Ymd :: "date \<Rightarrow> string" where
  "strftime_Ymd d =
     str_of_nat (nat (year d)) @ ''.'' @ zfill 2 (str_of_nat (nat (month d))) @ ''.''
       @ zfill 2 (str_of_nat (nat (day d)))"

text \<open>\<open>str(d)\<close>, the ISO format \<open>YYYY-MM-DD\<close>.\<close>

definition date_str :: "date \<Rightarrow> string" where
  "date_str d =
     zfill 4 (str_of_nat (nat (year d))) @ ''-'' @ zfill 2 (str_of_nat (nat (month d))) @ ''-''
       @ zfill 2 (str_of_nat (nat (day d)))"

subsection \<open>Parsing a date: \<open>datetime.strptime(value, "%d.%m.%Y")\<close>\<close>

text \<open>
  The library compiles the format to the regular expression
  \<^verbatim>\<open>(?P<d>3[0-1]|[1-2]\d|0[1-9]|[1-9]| [1-9])\.(?P<m>1[0-2]|0[1-9]|[1-9])\.(?P<Y>\d\d\d\d)\<close>
  and matches it at the start of the text. Each function below lists the ways one group
  matches a prefix of its argument, in the order in which the alternatives are tried, as
  pairs of the matched text and the rest; the first way in which the whole expression
  matches is the match.
\<close>

definition re_d :: "string \<Rightarrow> (string \<times> string) list" where
  "re_d s =
     (case s of
        c1 # c2 # r \<Rightarrow>
          (if c1 = CHR ''3'' \<and> c2 \<in> set ''01'' then [([c1, c2], r)] else []) @
          (if c1 \<in> set ''12'' \<and> re_digit c2 then [([c1, c2], r)] else []) @
          (if c1 = CHR ''0'' \<and> c2 \<in> set ''123456789'' then [([c1, c2], r)] else [])
      | _ \<Rightarrow> []) @
     (case s of
        c1 # r \<Rightarrow> (if c1 \<in> set ''123456789'' then [([c1], r)] else [])
      | _ \<Rightarrow> []) @
     (case s of
        c1 # c2 # r \<Rightarrow>
          (if c1 = CHR '' '' \<and> c2 \<in> set ''123456789'' then [([c1, c2], r)] else [])
      | _ \<Rightarrow> [])"

definition re_m :: "string \<Rightarrow> (string \<times> string) list" where
  "re_m s =
     (case s of
        c1 # c2 # r \<Rightarrow>
          (if c1 = CHR ''1'' \<and> c2 \<in> set ''012'' then [([c1, c2], r)] else []) @
          (if c1 = CHR ''0'' \<and> c2 \<in> set ''123456789'' then [([c1, c2], r)] else [])
      | _ \<Rightarrow> []) @
     (case s of
        c1 # r \<Rightarrow> (if c1 \<in> set ''123456789'' then [([c1], r)] else [])
      | _ \<Rightarrow> [])"

definition re_Y :: "string \<Rightarrow> (string \<times> string) list" where
  "re_Y s =
     (case s of
        c1 # c2 # c3 # c4 # r \<Rightarrow>
          (if re_digit c1 \<and> re_digit c2 \<and> re_digit c3 \<and> re_digit c4
           then [([c1, c2, c3, c4], r)] else [])
      | _ \<Rightarrow> [])"

definition re_dot :: "string \<Rightarrow> string list" where
  "re_dot s = (case s of c # r \<Rightarrow> (if c = CHR ''.'' then [r] else []) | [] \<Rightarrow> [])"

definition regex_match :: "string \<Rightarrow> (string \<times> string \<times> string \<times> string) list" where
  "regex_match s =
     concat (map (\<lambda>(d, r1).
       concat (map (\<lambda>r2.
         concat (map (\<lambda>(m, r3).
           concat (map (\<lambda>r4.
             map (\<lambda>(y, r5). (d, m, y, r5)) (re_Y r4))
             (re_dot r3)))
           (re_m r2)))
         (re_dot r1)))
       (re_d s))"

text \<open>\<open>int\<close> of the text of a group: white space around it is dropped.\<close>

definition int_of_text :: "string \<Rightarrow> int" where
  "int_of_text s = int (foldl (\<lambda>a c. 10 * a + digit_val c) 0 (filter (\<lambda>c. \<not> isspace c) s))"

definition strptime_dmY :: "string \<Rightarrow> exc + date" where
  "strptime_dmY s =
     (case regex_match s of
        [] \<Rightarrow> Inl (ValueError (ustr ''time data '' @ py_repr (ustr s)
                 @ ustr '' does not match format '' @ py_repr (ustr ''%d.%m.%Y'')))
      | (d, m, y, r) # _ \<Rightarrow>
          if r \<noteq> [] then Inl (ValueError (ustr ''unconverted data remains: '' @ ustr r))
          else date_new (int_of_text y) (int_of_text m) (int_of_text d))"

subsection \<open>Birthday\<close>

text \<open>The value held by the attribute \<open>value\<close> of a \<open>Birthday\<close>: a \<open>str\<close> or a
  \<open>date\<close>.\<close>

datatype field_value = Str string | Date date

datatype Birthday = BirthdayObj (birthday_value: field_value)

text \<open>\<open>Field.__init__(self, value)\<close>: the assignment \<open>self.value = value\<close>.\<close>

definition Field_init :: "Birthday \<Rightarrow> field_value \<Rightarrow> Birthday" where
  "Field_init self v = (case self of BirthdayObj _ \<Rightarrow> BirthdayObj v)"

text \<open>The message of the \<open>ValueError\<close> of \<open>Birthday.__init__\<close>
  ("Nepravylnyi format daty. Vykorystovuite DD.MM.GGGG").\<close>

definition msg_birthday_format :: ustr where
  "msg_birthday_format = [1053, 1077, 1087, 1088, 1072, 1074, 1080, 1083, 1100, 1085, 1080,
     1081, 32, 1092, 1086, 1088, 1084, 1072, 1090, 32, 1076, 1072, 1090, 1080, 46, 32, 1042,
     1080, 1082, 1086, 1088, 1080, 1089, 1090, 1086, 1074, 1091, 1081, 1090, 1077, 32, 1044,
     1044, 46, 1052, 1052, 46, 1043, 1043, 1043, 1043]"

text \<open>
  \<open>Birthday(value)\<close>: the parsed date is assigned to \<open>self.value\<close>, then
  \<open>super().__init__(value)\<close> runs and assigns the argument to \<open>self.value\<close>; a
  \<open>ValueError\<close> of the parsing is replaced by one with the message of the class.
\<close>

definition Birthday_init :: "string \<Rightarrow> exc + Birthday" where
  "Birthday_init v =
     (case strptime_dmY v of
        Inl (ValueError _) \<Rightarrow> Inl (ValueError msg_birthday_format)
      | Inl e \<Rightarrow> Inl e
      | Inr d \<Rightarrow>
          (let self = BirthdayObj (Date d);
               self = Field_init self (Str v)
           in Inr self))"

text \<open>\<open>str\<close> of a field value, and \<open>Field.__str__\<close> on a \<open>Birthday\<close>.\<close>

definition field_value_str :: "field_value \<Rightarrow> string" where
  "field_value_str v = (case v of Str s \<Rightarrow> s | Date d \<Rightarrow> date_str d)"

definition Birthday_str :: "Birthday \<Rightarrow> string" where
  "Birthday_str b = field_value_str (birthday_value b)"

section \<open>Record\<close>

text \<open>A contact: \<open>name\<close> is the value of its \<open>Name\<close> field, fixed at construction.\<close>

record Record =
  name :: string
  phones :: "Phone list"
  birthday :: "Birthday option"

definition Record_init :: "string \<Rightarrow> Record" where
  "Record_init nm = \<lparr>name = nm, phones = [], birthday = None\<rparr>"

definition add_phone :: "Record \<Rightarrow> string \<Rightarrow> exc + Record" where
  "add_phone r p =
     (case Phone_init p of
        Inl e \<Rightarrow> Inl e
      | Inr ph \<Rightarrow> Inr (r\<lparr>phones := phones r @ [ph]\<rparr>))"

text \<open>\<open>remove_phone\<close>: the first phone of that value is removed, if there is one.\<close>

fun remove_phone_loop :: "Phone list \<Rightarrow> string \<Rightarrow> Phone list" where
  "remove_phone_loop [] p = []"
| "remove_phone_loop (x # xs) p =
     (if phone_value x = p then xs else x # remove_phone_loop xs p)"

definition remove_phone :: "Record \<Rightarrow> string \<Rightarrow> Record" where
  "remove_phone r p = r\<lparr>phones := remove_phone_loop (phones r) p\<rparr>"

text \<open>\<open>edit_phone\<close>: the first phone of the old value is assigned the new one, through the
  setter.\<close>

fun edit_phone_loop :: "Phone list \<Rightarrow> string \<Rightarrow> string \<Rightarrow> exc + Phone list" where
  "edit_phone_loop [] old_phone new_phone = Inr []"
| "edit_phone_loop (x # xs) old_phone new_phone =
     (if phone_value x = old_phone
      then (case Phone_value_setter new_phone of
              Inl e \<Rightarrow> Inl e
            | Inr x' \<Rightarrow> Inr (x' # xs))
      else (case edit_phone_loop xs old_phone new_phone of
              Inl e \<Rightarrow> Inl e
            | Inr xs' \<Rightarrow> Inr (x # xs')))"

definition edit_phone :: "Record \<Rightarrow> string \<Rightarrow> string \<Rightarrow> exc + Record" where
  "edit_phone r old_phone new_phone =
     (case edit_phone_loop (phones r) old_phone new_phone of
        Inl e \<Rightarrow> Inl e
      | Inr ps \<Rightarrow> Inr (r\<lparr>phones := ps\<rparr>))"

fun find_phone_loop :: "Phone list \<Rightarrow> string \<Rightarrow> string option" where
  "find_phone_loop [] p = None"
| "find_phone_loop (x # xs) p = (if phone_value x = p then Some (phone_value x) else find_phone_loop xs p)"

definition find_phone :: "Record \<Rightarrow> string \<Rightarrow> string option" where
  "find_phone r p = find_phone_loop (phones r) p"

definition add_birthday :: "Record \<Rightarrow> string \<Rightarrow> exc + Record" where
  "add_birthday r b =
     (case Birthday_init b of
        Inl e \<Rightarrow> Inl e
      | Inr bd \<Rightarrow> Inr (r\<lparr>birthday := Some bd\<rparr>))"

text \<open>\<open>sep.join(xs)\<close>.\<close>

fun join :: "'a list \<Rightarrow> 'a list list \<Rightarrow> 'a list" where
  "join sep [] = []"
| "join sep [x] = x"
| "join sep (x # y # ys) = x @ sep @ join sep (y # ys)"

text \<open>\<open>Record.__str__\<close>; the literals are "Im'ia kontaktu: " and ", telefon: ".\<close>

definition Record_str :: "Record \<Rightarrow> ustr" where
  "Record_str r =
     [1030, 1084, 39, 1103, 32, 1082, 1086, 1085, 1090, 1072, 1082, 1090, 1091, 58, 32]
     @ ustr (name r)
     @ [44, 32, 1090, 1077, 1083, 1077, 1092, 1086, 1085, 58, 32]
     @ ustr (join ''; '' (map Phone_str (phones r)))"

section \<open>AddressBook\<close>

text \<open>
  The dictionary \<open>data\<close> of the book, from names to records, as the list of its items in
  insertion order. Assigning to a key that is present keeps its place; a new key goes to
  the end.
\<close>

type_synonym AddressBook = "(string \<times> Record) list"

fun dict_set :: "'k \<Rightarrow> 'v \<Rightarrow> ('k \<times> 'v) list \<Rightarrow> ('k \<times> 'v) list" where
  "dict_set k v [] = [(k, v)]"
| "dict_set k v ((k', v') # kvs) =
     (if k' = k then (k, v) # kvs else (k', v') # dict_set k v kvs)"

definition dict_del :: "'k \<Rightarrow> ('k \<times> 'v) list \<Rightarrow> ('k \<times> 'v) list" where
  "dict_del k kvs = filter (\<lambda>kv. fst kv \<noteq> k) kvs"

definition add_record :: "AddressBook \<Rightarrow> Record \<Rightarrow> AddressBook" where
  "add_record book r = dict_set (name r) r book"

definition find_record :: "AddressBook \<Rightarrow> string \<Rightarrow> Record option" where
  "find_record book nm = map_of book nm"

definition delete :: "AddressBook \<Rightarrow> string \<Rightarrow> AddressBook" where
  "delete book nm = (if nm \<in> fst ` set book then dict_del nm book else book)"

subsection \<open>\<open>find_next_birthday\<close>\<close>

text \<open>
  The loop \<open>while d.weekday() != weekday: d += timedelta(days=1)\<close>. It ends at the latest
  when the addition leaves the range of dates, with an \<open>OverflowError\<close>.
\<close>

function advance_to_weekday :: "date \<Rightarrow> int \<Rightarrow> exc + date" where
  "advance_to_weekday d wd =
     (if weekday d \<noteq> wd
      then (case date_add d 1 of
              Inl e \<Rightarrow> Inl e
            | Inr d' \<Rightarrow> advance_to_weekday d' wd)
      else Inr d)"
  by pat_completeness auto
termination
  by (relation "measure (\<lambda>(d, wd). nat (MAXORDINAL + 1 - toordinal d))")
    (auto simp add: date_add_def Let_def split: if_splits)

text \<open>
  The body of the loop over the items, with the date \<open>today\<close> read from the clock as a
  parameter and \<open>next_birthday\<close> as the accumulator. Reading \<open>.month\<close> off a value that is
  a \<open>str\<close> raises \<open>AttributeError\<close>.
\<close>

fun find_next_birthday_loop ::
  "date \<Rightarrow> int \<Rightarrow> (string \<times> Record) list \<Rightarrow> date option \<Rightarrow> exc + date option" where
  "find_next_birthday_loop today wd [] next_birthday = Inr next_birthday"
| "find_next_birthday_loop today wd ((nm, r) # items) next_birthday =
     (case birthday r of
        None \<Rightarrow> find_next_birthday_loop today wd items next_birthday
      | Some b \<Rightarrow>
          (case birthday_value b of
             Str s \<Rightarrow> Inl (AttributeError (ustr [CHR 0x27] @ ustr ''str'' @ ustr [CHR 0x27]
                        @ ustr '' object has no attribute '' @ ustr [CHR 0x27] @ ustr ''month''
                        @ ustr [CHR 0x27]))
           | Date bv \<Rightarrow>
               (case date_new (year today) (month bv) (day bv) of
                  Inl e \<Rightarrow> Inl e
                | Inr birthday_this_year \<Rightarrow>
                    (case (if date_less birthday_this_year today
                           then date_new (year today + 1) (month bv) (day bv)
                           else Inr birthday_this_year) of
                       Inl e \<Rightarrow> Inl e
                     | Inr birthday_this_year \<Rightarrow>
                         (case advance_to_weekday birthday_this_year wd of
                            Inl e \<Rightarrow> Inl e
                          | Inr birthday_this_year \<Rightarrow>
                              find_next_birthday_loop today wd items
                                (case next_birthday of
                                   None \<Rightarrow> Some birthday_this_year
                                 | Some nb \<Rightarrow>
                                     if date_diff_days birthday_this_year today
                                          < date_diff_days nb today
                                     then Some birthday_this_year else Some nb))))))"

definition find_next_birthday :: "date \<Rightarrow> AddressBook \<Rightarrow> int \<Rightarrow> exc + date option" where
  "find_next_birthday today book wd = find_next_birthday_loop today wd book None"

subsection \<open>\<open>get_upcoming_birthday\<close>\<close>

text \<open>
  The loop over the items, with \<open>today\<close> as a parameter and the list
  \<open>upcoming_birthdays\<close> as the accumulator; an entry is the pair of the values under
  \<open>"name"\<close> and \<open>"congratulation_date"\<close>. Calling \<open>replace(year=...)\<close> on a value that is a
  \<open>str\<close> raises \<open>TypeError\<close>.
\<close>

fun get_upcoming_birthday_loop ::
  "date \<Rightarrow> int \<Rightarrow> (string \<times> Record) list \<Rightarrow> (string \<times> string) list
     \<Rightarrow> exc + (string \<times> string) list" where
  "get_upcoming_birthday_loop today days [] upcoming_birthdays = Inr upcoming_birthdays"
| "get_upcoming_birthday_loop today days ((nm, r) # items) upcoming_birthdays =
     (case birthday r of
        None \<Rightarrow> get_upcoming_birthday_loop today days items upcoming_birthdays
      | Some b \<Rightarrow>
          (case birthday_value b of
             Str s \<Rightarrow> Inl (TypeError (ustr ''str.replace() takes no keyword arguments''))
           | Date bv \<Rightarrow>
               (case replace_year bv (year today) of
                  Inl e \<Rightarrow> Inl e
                | Inr birthday_this_year \<Rightarrow>
                    (case (if date_less birthday_this_year today
                           then replace_year birthday_this_year (year today + 1)
                           else Inr birthday_this_year) of
                       Inl e \<Rightarrow> Inl e
                     | Inr birthday_this_year \<Rightarrow>
                         if 0 \<le> date_diff_days birthday_this_year today
                            \<and> date_diff_days birthday_this_year today \<le> days
                         then
                           (case (if weekday birthday_this_year \<ge> 5
                                  then date_add birthday_this_year (7 - weekday birthday_this_year)
                                  else Inr birthday_this_year) of
                              Inl e \<Rightarrow> Inl e
                            | Inr birthday_this_year \<Rightarrow>
                                get_upcoming_birthday_loop today days items
                                  (upcoming_birthdays @ [(nm, strftime_Ymd birthday_this_year)]))
                         else get_upcoming_birthday_loop today days items upcoming_birthdays))))"

definition get_upcoming_birthday ::
  "date \<Rightarrow> AddressBook \<Rightarrow> int \<Rightarrow> exc + (string \<times> string) list" where
  "get_upcoming_birthday today book days = get_upcoming_birthday_loop today days book []"

section \<open>Commands\<close>

subsection \<open>The texts of the messages\<close>

text \<open>"Kontakt onovleno."\<close>

definition msg_contact_updated :: ustr where
  "msg_contact_updated =
     [1050, 1086, 1085, 1090, 1072, 1082, 1090, 32, 1086, 1085, 1086, 1074, 1083, 1077, 1085,
      1086, 46]"

text \<open>"Kontakt uspishno onovleno."\<close>

definition msg_contact_changed :: ustr where
  "msg_contact_changed =
     [1050, 1086, 1085, 1090, 1072, 1082, 1090, 32, 1091, 1089, 1087, 1110, 1096, 1085, 1086,
      32, 1086, 1085, 1086, 1074, 1083, 1077, 1085, 1086, 46]"

text \<open>"Kontakt dodanyi."\<close>

definition msg_contact_added :: ustr where
  "msg_contact_added =
     [1050, 1086, 1085, 1090, 1072, 1082, 1090, 32, 1076, 1086, 1076, 1072, 1085, 1080, 1081,
      46]"

text \<open>"Spysok kontaktiv porozhnii."\<close>

definition msg_empty_list :: ustr where
  "msg_empty_list =
     [1057, 1087, 1080, 1089, 1086, 1082, 32, 1082, 1086, 1085, 1090, 1072, 1082, 1090, 1110,
      1074, 32, 1087, 1086, 1088, 1086, 1078, 1085, 1110, 1081, 46]"

text \<open>"V adresnii knyzi nemaie kontaktiv iz dniamy narodzhennia."\<close>

definition msg_no_birthdays :: ustr where
  "msg_no_birthdays =
     [1042, 32, 1072, 1076, 1088, 1077, 1089, 1085, 1110, 1081, 32, 1082, 1085, 1080, 1079,
      1110, 32, 1085, 1077, 1084, 1072, 1108, 32, 1082, 1086, 1085, 1090, 1072, 1082, 1090,
      1110, 1074, 32, 1110, 1079, 32, 1076, 1085, 1103, 1084, 1080, 32, 1085, 1072, 1088, 1086,
      1076, 1078, 1077, 1085, 1085, 1103, 46]"

text \<open>"Nepravylna kilkist arhumentiv. Vykorystovuite: add [imia] [telefon]"\<close>

definition msg_add_args :: ustr where
  "msg_add_args =
     [1053, 1077, 1087, 1088, 1072, 1074, 1080, 1083, 1100, 1085, 1072, 32, 1082, 1110, 1083,
      1100, 1082, 1110, 1089, 1090, 1100, 32, 1072, 1088, 1075, 1091, 1084, 1077, 1085, 1090,
      1110, 1074, 46, 32, 1042, 1080, 1082, 1086, 1088, 1080, 1089, 1090, 1086, 1074, 1091,
      1081, 1090, 1077, 58, 32, 97, 100, 100, 32, 91, 1080, 1084, 1103, 93, 32, 91, 1090, 1077,
      1083, 1077, 1092, 1086, 1085, 93]"

text \<open>"Nepravylna kilkist arhumentiv. Vykorystovuite: change [imia] [novyi_telefon]"\<close>

definition msg_change_args :: ustr where
  "msg_change_args =
     [1053, 1077, 1087, 1088, 1072, 1074, 1080, 1083, 1100, 1085, 1072, 32, 1082, 1110, 1083,
      1100, 1082, 1110, 1089, 1090, 1100, 32, 1072, 1088, 1075, 1091, 1084, 1077, 1085, 1090,
      1110, 1074, 46, 32, 1042, 1080, 1082, 1086, 1088, 1080, 1089, 1090, 1086, 1074, 1091,
      1081, 1090, 1077, 58, 32, 99, 104, 97, 110, 103, 101, 32, 91, 1110, 1084, 39, 1103, 93,
      32, 91, 1085, 1086, 1074, 1080, 1081, 95, 1090, 1077, 1083, 1077, 1092, 1086, 1085, 93]"

text \<open>"Nepravylna kilkist arhumentiv. Vykorystovuite: show [imia]"\<close>

definition msg_show_args :: ustr where
  "msg_show_args =
     [1053, 1077, 1087, 1088, 1072, 1074, 1080, 1083, 1100, 1085, 1072, 32, 1082, 1110, 1083,
      1100, 1082, 1110, 1089, 1090, 1100, 32, 1072, 1088, 1075, 1091, 1084, 1077, 1085, 1090,
      1110, 1074, 46, 32, 1042, 1080, 1082, 1086, 1088, 1080, 1089, 1090, 1086, 1074, 1091,
      1081, 1090, 1077, 58, 32, 115, 104, 111, 119, 32, 91, 1110, 1084, 39, 1103, 93]"

text \<open>"Nepravylna kilkist arhumentiv. Vykorystovuite: add-birthday [imia] [data]"\<close>

definition msg_add_birthday_args :: ustr where
  "msg_add_birthday_args =
     [1053, 1077, 1087, 1088, 1072, 1074, 1080, 1083, 1100, 1085, 1072, 32, 1082, 1110, 1083,
      1100, 1082, 1110, 1089, 1090, 1100, 32, 1072, 1088, 1075, 1091, 1084, 1077, 1085, 1090,
      1110, 1074, 46, 32, 1042, 1080, 1082, 1086, 1088, 1080, 1089, 1090, 1086, 1074, 1091,
      1081, 1090, 1077, 58, 32, 97, 100, 100, 45, 98, 105, 114, 116, 104, 100, 97, 121, 32, 91,
      1110, 1084, 39, 1103, 93, 32, 91, 1076, 1072, 1090, 1072, 93]"

text \<open>"Nepravylna kilkist arhumentiv. Vykorystovuite: show-birthday [imia]"\<close>

definition msg_show_birthday_args :: ustr where
  "msg_show_birthday_args =
     [1053, 1077, 1087, 1088, 1072, 1074, 1080, 1083, 1100, 1085, 1072, 32, 1082, 1110, 1083,
      1100, 1082, 1110, 1089, 1090, 1100, 32, 1072, 1088, 1075, 1091, 1084, 1077, 1085, 1090,
      1110, 1074, 46, 32, 1042, 1080, 1082, 1086, 1088, 1080, 1089, 1090, 1086, 1074, 1091,
      1081, 1090, 1077, 58, 32, 115, 104, 111, 119, 45, 98, 105, 114, 116, 104, 100, 97, 121,
      32, 91, 1110, 1084, 39, 1103, 93]"

text \<open>"Nediisna komanda."\<close>

definition msg_invalid_command :: ustr where
  "msg_invalid_command =
     [1053, 1077, 1076, 1110, 1081, 1089, 1085, 1072, 32, 1082, 1086, 1084, 1072, 1085, 1076,
      1072, 46]"

text \<open>"Kontakt '<name>' ne znaideno."\<close>

definition msg_not_found :: "string \<Rightarrow> ustr" where
  "msg_not_found nm =
     [1050, 1086, 1085, 1090, 1072, 1082, 1090, 32, 39]
     @ ustr nm
     @ [39, 32, 1085, 1077, 32, 1079, 1085, 1072, 1081, 1076, 1077, 1085, 1086, 46]"

text \<open>"Datu narodzhennia uspishno dodano dlia kontaktu '<name>'."\<close>

definition msg_birthday_added :: "string \<Rightarrow> ustr" where
  "msg_birthday_added nm =
     [1044, 1072, 1090, 1091, 32, 1085, 1072, 1088, 1086, 1076, 1078, 1077, 1085, 1085, 1103,
      32, 1091, 1089, 1087, 1110, 1096, 1085, 1086, 32, 1076, 1086, 1076, 1072, 1085, 1086, 32,
      1076, 1083, 1103, 32, 1082, 1086, 1085, 1090, 1072, 1082, 1090, 1091, 32, 39]
     @ ustr nm
     @ [39, 46]"

text \<open>"Dlia kontaktu '<name>' ne vkazano datu narodzhennia."\<close>

definition msg_birthday_not_set :: "string \<Rightarrow> ustr" where
  "msg_birthday_not_set nm =
     [1044, 1083, 1103, 32, 1082, 1086, 1085, 1090, 1072, 1082, 1090, 1091, 32, 39]
     @ ustr nm
     @ [39, 32, 1085, 1077, 32, 1074, 1082, 1072, 1079, 1072, 1085, 1086, 32, 1076, 1072, 1090,
      1091, 32, 1085, 1072, 1088, 1086, 1076, 1078, 1077, 1085, 1085, 1103, 46]"

text \<open>"Data narodzhennia kontaktu '<name>': <birthday>"\<close>

definition msg_birthday_of :: "string \<Rightarrow> string \<Rightarrow> ustr" where
  "msg_birthday_of nm b =
     [1044, 1072, 1090, 1072, 32, 1085, 1072, 1088, 1086, 1076, 1078, 1077, 1085, 1085, 1103,
      32, 1082, 1086, 1085, 1090, 1072, 1082, 1090, 1091, 32, 39]
     @ ustr nm
     @ [39, 58, 32]
     @ ustr b"

subsection \<open>The decorator \<open>input_error\<close>\<close>

text \<open>
  A call of a handler ends by returning a text or by raising an exception, and leaves a
  book behind: the outcome is a pair of the two. The wrapper returns what the handler
  returns and turns a \<open>KeyError\<close>, a \<open>ValueError\<close> or an \<open>IndexError\<close> into the text
  \<open>str(e)\<close>; any other exception passes through.
\<close>

type_synonym outcome = "(exc + ustr) \<times> AddressBook"

definition input_error :: "outcome \<Rightarrow> outcome" where
  "input_error res =
     (case res of
        (Inl (KeyError m), b) \<Rightarrow> (Inr (str_exc (KeyError m)), b)
      | (Inl (ValueError m), b) \<Rightarrow> (Inr (str_exc (ValueError m)), b)
      | (Inl (IndexError m), b) \<Rightarrow> (Inr (str_exc (IndexError m)), b)
      | (Inl e, b) \<Rightarrow> (Inl e, b)
      | (Inr m, b) \<Rightarrow> (Inr m, b))"

subsection \<open>The handlers\<close>

text \<open>The loop \<open>for phone in phones: record.add_phone(phone)\<close>: it stops at the first
  phone that is refused, and the record keeps the phones appended before it.\<close>

fun add_phone_loop :: "Record \<Rightarrow> string list \<Rightarrow> exc option \<times> Record" where
  "add_phone_loop r [] = (None, r)"
| "add_phone_loop r (p # ps) =
     (case add_phone r p of
        Inl e \<Rightarrow> (Some e, r)
      | Inr r' \<Rightarrow> add_phone_loop r' ps)"

text \<open>The record of the loop is the object stored in the book under the name, so the
  book sees what the loop did to it.\<close>

definition add_contact_body :: "string list \<Rightarrow> AddressBook \<Rightarrow> outcome" where
  "add_contact_body args book =
     (if length args < 2 then (Inl (ValueError msg_add_args), book)
      else
        let nm = args ! 0;
            ps = drop 1 args
        in (case find_record book nm of
              None \<Rightarrow>
                (let r = Record_init nm;
                     book = add_record book r;
                     (err, r) = add_phone_loop r ps;
                     book = dict_set nm r book
                 in (case err of Some e \<Rightarrow> (Inl e, book) | None \<Rightarrow> (Inr msg_contact_added, book)))
            | Some r \<Rightarrow>
                (let (err, r) = add_phone_loop r ps;
                     book = dict_set nm r book
                 in (case err of Some e \<Rightarrow> (Inl e, book) | None \<Rightarrow> (Inr msg_contact_updated, book)))))"

definition add_contact :: "string list \<Rightarrow> AddressBook \<Rightarrow> outcome" where
  "add_contact args book = input_error (add_contact_body args book)"

definition change_contact_body :: "string list \<Rightarrow> AddressBook \<Rightarrow> outcome" where
  "change_contact_body args book =
     (if length args \<noteq> 2 then (Inl (ValueError msg_change_args), book)
      else
        let nm = args ! 0;
            phone = args ! 1
        in (case find_record book nm of
              None \<Rightarrow> (Inl (KeyError (msg_not_found nm)), book)
            | Some r \<Rightarrow>
                (case Phone_init phone of
                   Inl e \<Rightarrow> (Inl e, book)
                 | Inr ph \<Rightarrow> (Inr msg_contact_changed, dict_set nm (r\<lparr>phones := [ph]\<rparr>) book))))"

definition change_contact :: "string list \<Rightarrow> AddressBook \<Rightarrow> outcome" where
  "change_contact args book = input_error (change_contact_body args book)"

definition show_contacts_body :: "string list \<Rightarrow> AddressBook \<Rightarrow> outcome" where
  "show_contacts_body args book =
     (if length args \<noteq> 1 then (Inl (ValueError msg_show_args), book)
      else
        let nm = args ! 0
        in (case find_record book nm of
              None \<Rightarrow> (Inl (KeyError (msg_not_found nm)), book)
            | Some r \<Rightarrow> (Inr (Record_str r), book)))"

definition show_contacts :: "string list \<Rightarrow> AddressBook \<Rightarrow> outcome" where
  "show_contacts args book = input_error (show_contacts_body args book)"

definition show_all_contacts_body :: "AddressBook \<Rightarrow> outcome" where
  "show_all_contacts_body book =
     (if book = [] then (Inr msg_empty_list, book)
      else (Inr (join [10]
              (map (\<lambda>(nm, r). ustr nm @ ustr '': '' @ ustr (join '', '' (map Phone_str (phones r))))
                 book)), book))"

definition show_all_contacts :: "AddressBook \<Rightarrow> outcome" where
  "show_all_contacts book = input_error (show_all_contacts_body book)"

definition add_birthday_body :: "string list \<Rightarrow> AddressBook \<Rightarrow> outcome" where
  "add_birthday_body args book =
     (if length args \<noteq> 2 then (Inl (ValueError msg_add_birthday_args), book)
      else
        let nm = args ! 0;
            b = args ! 1
        in (case find_record book nm of
              None \<Rightarrow> (Inl (KeyError (msg_not_found nm)), book)
            | Some r \<Rightarrow>
                (case add_birthday r b of
                   Inl e \<Rightarrow> (Inl e, book)
                 | Inr r' \<Rightarrow> (Inr (msg_birthday_added nm), dict_set nm r' book))))"

definition add_birthday_cmd :: "string list \<Rightarrow> AddressBook \<Rightarrow> outcome" where
  "add_birthday_cmd args book = input_error (add_birthday_body args book)"

definition show_birthday_body :: "string list \<Rightarrow> AddressBook \<Rightarrow> outcome" where
  "show_birthday_body args book =
     (if length args \<noteq> 1 then (Inl (ValueError msg_show_birthday_args), book)
      else
        let nm = args ! 0
        in (case find_record book nm of
              None \<Rightarrow> (Inl (KeyError (msg_not_found nm)), book)
            | Some r \<Rightarrow>
                (case birthday r of
                   None \<Rightarrow> (Inr (msg_birthday_not_set nm), book)
                 | Some b \<Rightarrow> (Inr (msg_birthday_of nm (Birthday_str b)), book))))"

definition show_birthday :: "string list \<Rightarrow> AddressBook \<Rightarrow> outcome" where
  "show_birthday args book = input_error (show_birthday_body args book)"

definition all_birthdays_body :: "AddressBook \<Rightarrow> outcome" where
  "all_birthdays_body book =
     (let birthdays_list =
            concat (map (\<lambda>(nm, r). case birthday r of
                                      None \<Rightarrow> []
                                    | Some b \<Rightarrow> [(nm, birthday_value b)]) book)
      in if birthdays_list = [] then (Inr msg_no_birthdays, book)
         else (Inr (join [10]
                 (map (\<lambda>(nm, v). ustr nm @ ustr '': '' @ ustr (field_value_str v)) birthdays_list)),
               book))"

definition all_birthdays :: "AddressBook \<Rightarrow> outcome" where
  "all_birthdays book = input_error (all_birthdays_body book)"

section \<open>The session\<close>

text \<open>\<open>str.split()\<close>: the maximal runs of characters that are not white space.\<close>

fun split_loop :: "string \<Rightarrow> string \<Rightarrow> string list" where
  "split_loop cur [] = (if cur = [] then [] else [cur])"
| "split_loop cur (c # cs) =
     (if isspace c then (if cur = [] then split_loop [] cs else cur # split_loop [] cs)
      else split_loop (cur @ [c]) cs)"

definition str_split :: "string \<Rightarrow> string list" where
  "str_split s = split_loop [] s"

definition strip :: "string \<Rightarrow> string" where
  "strip s = rev (dropWhile isspace (rev (dropWhile isspace s)))"

text \<open>\<open>parse_input\<close>: the unpacking \<open>cmd, *args = user_input.split()\<close> raises
  \<open>ValueError\<close> when there is no token.\<close>

definition parse_input :: "string \<Rightarrow> exc + (string \<times> string list)" where
  "parse_input user_input =
     (case str_split user_input of
        [] \<Rightarrow> Inl (ValueError (ustr ''not enough values to unpack (expected at least 1, got 0)''))
      | cmd # args \<Rightarrow> Inr (lower (strip cmd), args))"

text \<open>\<open>ConsoleView\<close>: each function gives the texts it prints, one per call of \<open>print\<close>.\<close>

definition display_message :: "ustr \<Rightarrow> ustr list" where
  "display_message message = [message]"

definition display_contacts :: "(string \<times> string list) list \<Rightarrow> ustr list" where
  "display_contacts contacts =
     (if contacts = [] then [msg_empty_list]
      else map (\<lambda>(nm, ps). ustr nm @ ustr '': '' @ ustr (join '', '' ps)) contacts)"

definition display_help :: "ustr list" where
  "display_help =
     [ustr ''Available commands:'',
      ustr ''1. add [name] [phone] - Add a new contact'',
      ustr ''2. change [name] [new_phone] - Change the contact'' @ [39] @ ustr ''s phone'',
      ustr ''3. show [name] - Show contact details'',
      ustr ''4. all - Show all contacts'',
      ustr ''5. add-birthday [name] [birthday] - Add a birthday to the contact'',
      ustr ''6. show-birthday [name] - Show the contact'' @ [39] @ ustr ''s birthday'',
      ustr ''7. all-birthdays - Show all birthdays'',
      ustr ''8. close/exit - Exit the application'']"

text \<open>
  One turn of the loop of \<open>main\<close> on the line read: the loop goes on with a book
  (\<open>Continue\<close>), ends at \<open>break\<close> with the book to be saved (\<open>Exited\<close>), or an exception leaves
  \<open>main\<close> (\<open>Crashed\<close>); each with the texts printed.
\<close>

datatype step = Continue AddressBook "ustr list" | Exited AddressBook "ustr list"
  | Crashed exc "ustr list"

definition show_outcome :: "outcome \<Rightarrow> step" where
  "show_outcome res =
     (case res of
        (Inr m, book) \<Rightarrow> Continue book (display_message m)
      | (Inl e, book) \<Rightarrow> Crashed e [])"

definition main_step :: "AddressBook \<Rightarrow> string \<Rightarrow> step" where
  "main_step book user_input =
     (case parse_input user_input of
        Inl e \<Rightarrow> Crashed e []
      | Inr (command, args) \<Rightarrow>
          if command \<in> set [''close'', ''exit''] then Exited book (display_message (ustr ''Goodbye!''))
          else if command = ''hello'' then Continue book (display_message (ustr ''How can I help you?''))
          else if command = ''add'' then show_outcome (add_contact args book)
          else if command = ''change'' then show_outcome (change_contact args book)
          else if command = ''show'' then show_outcome (show_contacts args book)
          else if command = ''all''
            then Continue book (display_contacts (map (\<lambda>(nm, r). (nm, map Phone_str (phones r))) book))
          else if command = ''add-birthday'' then show_outcome (add_birthday_cmd args book)
          else if command = ''show-birthday'' then show_outcome (show_birthday args book)
          else if command = ''all-birthdays'' then show_outcome (all_birthdays book)
          else Continue book (display_message msg_invalid_command @ display_help))"

text \<open>The loop on the lines that the input holds; \<open>input\<close> raises \<open>EOFError\<close> when there
  is no line left.\<close>

fun main_loop :: "AddressBook \<Rightarrow> string list \<Rightarrow> ustr list \<Rightarrow> step" where
  "main_loop book [] out = Crashed EOFError out"
| "main_loop book (l # ls) out =
     (case main_step book l of
        Continue book' printed \<Rightarrow> main_loop book' ls (out @ printed)
      | Exited book' printed \<Rightarrow> Exited book' (out @ printed)
      | Crashed e printed \<Rightarrow> Crashed e (out @ printed))"

section \<open>Persistence\<close>

text \<open>
  The files are a map from names to contents. \<open>pickle.dump\<close> and \<open>pickle.load\<close> belong to
  the library: they are the parameters \<open>dump\<close> and \<open>load\<close>, the second of which may raise.
  \<open>open\<close> of a name that has no file raises \<open>FileNotFoundError\<close>, which \<open>load_data\<close>
  answers with an empty book.
\<close>

definition save_data :: "(AddressBook \<Rightarrow> 'p) \<Rightarrow> AddressBook \<Rightarrow> string \<Rightarrow> (string \<rightharpoonup> 'p)
    \<Rightarrow> (string \<rightharpoonup> 'p)" where
  "save_data dump book filename files = files(filename \<mapsto> dump book)"

definition load_data :: "('p \<Rightarrow> exc + AddressBook) \<Rightarrow> string \<Rightarrow> (string \<rightharpoonup> 'p)
    \<Rightarrow> exc + AddressBook" where
  "load_data load filename files =
     (case files filename of
        None \<Rightarrow> Inr []
      | Some content \<Rightarrow> load content)"

text \<open>\<open>main\<close>: the book is loaded, the loop runs, and the book is saved when the loop ends
  at \<open>break\<close>.\<close>

definition main :: "(AddressBook \<Rightarrow> 'p) \<Rightarrow> ('p \<Rightarrow> exc + AddressBook) \<Rightarrow> (string \<rightharpoonup> 'p)
    \<Rightarrow> string list \<Rightarrow> step \<times> (string \<rightharpoonup> 'p)" where
  "main dump load files lines =
     (case load_data load ''addressbook.pkl'' files of
        Inl e \<Rightarrow> (Crashed e [], files)
      | Inr book \<Rightarrow>
          (case main_loop book lines (display_message (ustr ''Welcome to the assistant bot!'')) of
             Exited book' printed \<Rightarrow>
               (Exited book' printed, save_data dump book' ''addressbook.pkl'' files)
           | res \<Rightarrow> (res, files)))"

section \<open>Notions used in the statements\<close>

text \<open>An outcome that is a returned text, and the book a turn of the loop leaves.\<close>

definition returns :: "outcome \<Rightarrow> bool" where
  "returns res = (case fst res of Inr m \<Rightarrow> True | Inl e \<Rightarrow> False)"

definition step_book :: "step \<Rightarrow> AddressBook option" where
  "step_book st =
     (case st of Continue b printed \<Rightarrow> Some b | Exited b printed \<Rightarrow> Some b | Crashed e printed \<Rightarrow> None)"

text \<open>A text that \<open>Phone\<close> accepts, and one that \<open>Birthday\<close> accepts.\<close>

definition valid_phone :: "string \<Rightarrow> bool" where
  "valid_phone p = (case Phone_init p of Inr ph \<Rightarrow> True | Inl e \<Rightarrow> False)"


text \<open>The three exceptions that the specification names as the errors of a command.\<close>

definition command_error :: "exc \<Rightarrow> bool" where
  "command_error e =
     (case e of ValueError m \<Rightarrow> True | KeyError m \<Rightarrow> True | IndexError m \<Rightarrow> True | _ \<Rightarrow> False)"








section \<open>Properties\<close>

subsection \<open>Phone construction\<close>

lemma isdigit_of_decimal: "spec_decimal_digit c \<Longrightarrow> isdigit c"
  by (simp add: spec_decimal_digit_def isdigit_def)

text \<open>
  Claim C3, as stated, fails: the text of ten characters U+00B2 (superscript two) is
  accepted by \<open>Phone\<close>, since \<open>str.isdigit\<close> holds of it, and none of its characters is a
  decimal digit.
\<close>

theorem C3_superscript_phone_accepted:
  "Phone_init [CHR 0xB2, CHR 0xB2, CHR 0xB2, CHR 0xB2, CHR 0xB2, CHR 0xB2, CHR 0xB2, CHR 0xB2,
      CHR 0xB2, CHR 0xB2]
    = Inr (PhoneObj [CHR 0xB2, CHR 0xB2, CHR 0xB2, CHR 0xB2, CHR 0xB2, CHR 0xB2, CHR 0xB2,
      CHR 0xB2, CHR 0xB2, CHR 0xB2])
   \<and> \<not> list_all spec_decimal_digit [CHR 0xB2, CHR 0xB2, CHR 0xB2, CHR 0xB2, CHR 0xB2, CHR 0xB2,
      CHR 0xB2, CHR 0xB2, CHR 0xB2, CHR 0xB2]"
  by (simp add: Phone_init_def Phone_value_setter_def str_isdigit_def isdigit_def
      spec_decimal_digit_def)

text \<open>
  Claim C3, amended: \<open>Phone\<close> construction succeeds exactly on the texts of length 10 all of
  whose characters satisfy \<open>str.isdigit\<close> (the decimal digits and the superscript digits),
  which include every text of exactly 10 decimal digits; on every other text it raises the
  \<open>ValueError\<close> of the class; an accepted phone renders as the text it was built from.
\<close>

theorem C3_phone_construction:
  "(length s = 10 \<and> list_all isdigit s \<longrightarrow>
      Phone_init s = Inr (PhoneObj s) \<and> Phone_str (PhoneObj s) = s)
   \<and> (\<not> (length s = 10 \<and> list_all isdigit s) \<longrightarrow>
      Phone_init s = Inl (ValueError msg_phone_format))
   \<and> (length s = 10 \<and> list_all spec_decimal_digit s \<longrightarrow> Phone_init s = Inr (PhoneObj s))"
proof -
  have nonempty: "length s = 10 \<Longrightarrow> s \<noteq> []"
    by auto
  have dec: "list_all spec_decimal_digit s \<Longrightarrow> list_all isdigit s"
    by (induction s) (simp_all add: isdigit_of_decimal)
  show ?thesis
    using nonempty dec
    by (auto simp add: Phone_init_def Phone_value_setter_def str_isdigit_def Phone_str_def)
qed

theorem C3_phone_construction_witness:
  "Phone_init ''0501234567'' = Inr (PhoneObj ''0501234567'')
   \<and> Phone_str (PhoneObj ''0501234567'') = ''0501234567''
   \<and> Phone_init ''050-123-45'' = Inl (ValueError msg_phone_format)"
proof -
  have a: "length ''0501234567'' = 10 \<and> list_all isdigit ''0501234567''"
    by (simp add: isdigit_def)
  have b: "\<not> (length ''050-123-45'' = 10 \<and> list_all isdigit ''050-123-45'')"
    by (simp add: isdigit_def)
  show ?thesis
    using a b C3_phone_construction [of "''0501234567''"] C3_phone_construction [of "''050-123-45''"]
    by blast
qed

subsection \<open>What a Birthday stores\<close>

lemma Birthday_init_keeps_text: "Birthday_init s = Inr b \<Longrightarrow> birthday_value b = Str s"
  by (auto simp add: Birthday_init_def Field_init_def split: sum.splits exc.splits)

text \<open>
  Claim C1 (a Birthday stores a date, so that rendering it is canonical) against the code:
  the constructor assigns the parsed date and then runs \<open>Field.__init__\<close>, which assigns
  the argument again. The text \<open>1.2.2020\<close> is accepted, the object holds that text, and it
  renders as \<open>1.2.2020\<close>, where the date that was parsed renders as \<open>2020-02-01\<close>.
\<close>

theorem C1_birthday_keeps_raw_text:
  "Birthday_init ''1.2.2020'' = Inr (BirthdayObj (Str ''1.2.2020''))
   \<and> Birthday_str (BirthdayObj (Str ''1.2.2020'')) = ''1.2.2020''
   \<and> map_sum id date_str (strptime_dmY ''1.2.2020'') = Inr ''2020-02-01''"
  by code_simp

subsection \<open>The birthday queries on a book built by the commands\<close>

text \<open>
  Claim C2 (\<open>get_upcoming_birthday\<close> returns the contacts whose birthday falls in the
  window) against the code: on the book that the commands \<open>add\<close> and \<open>add-birthday\<close> build
  for a contact whose birthday is the next day, with today 2026-11-04, the function raises
  \<open>TypeError\<close>, because the birthday holds a text and \<open>replace(year=...)\<close> is called on it.
\<close>

theorem C2_upcoming_birthday_raises:
  "step_book (main_loop [] [''add bob 0501234567'', ''add-birthday bob 05.11.2026'', ''exit''] [])
     = Some [(''bob'', \<lparr>name = ''bob'', phones = [PhoneObj ''0501234567''],
                birthday = Some (BirthdayObj (Str ''05.11.2026''))\<rparr>)]
   \<and> date_new 2026 11 4 = Inr (date_fromordinal 739924)
   \<and> get_upcoming_birthday (date_fromordinal 739924)
        [(''bob'', \<lparr>name = ''bob'', phones = [PhoneObj ''0501234567''],
            birthday = Some (BirthdayObj (Str ''05.11.2026''))\<rparr>)] 7
     = Inl (TypeError (ustr ''str.replace() takes no keyword arguments''))"
  by code_simp

text \<open>
  Claim C10 (\<open>find_next_birthday\<close> returns the earliest date moved to the weekday) against
  the code: on the book that the commands build for a contact with a birthday, with today
  2026-11-04 and Monday asked for, the function raises \<open>AttributeError\<close>, because the
  birthday holds a text and \<open>.month\<close> is read off it.
\<close>

theorem C10_find_next_birthday_raises:
  "step_book (main_loop [] [''add ann 0671234567'', ''add-birthday ann 09.11.1990'', ''close''] [])
     = Some [(''ann'', \<lparr>name = ''ann'', phones = [PhoneObj ''0671234567''],
                birthday = Some (BirthdayObj (Str ''09.11.1990''))\<rparr>)]
   \<and> date_new 2026 11 4 = Inr (date_fromordinal 739924)
   \<and> find_next_birthday (date_fromordinal 739924)
        [(''ann'', \<lparr>name = ''ann'', phones = [PhoneObj ''0671234567''],
            birthday = Some (BirthdayObj (Str ''09.11.1990''))\<rparr>)] 0
     = Inl (AttributeError (ustr [CHR 0x27] @ ustr ''str'' @ ustr [CHR 0x27]
              @ ustr '' object has no attribute '' @ ustr [CHR 0x27] @ ustr ''month''
              @ ustr [CHR 0x27]))"
  by code_simp

subsection \<open>The session loop\<close>

text \<open>
  Claim C8 (no line but \<open>close\<close> and \<open>exit\<close> ends the loop) against the code: on a line
  without a token, empty or of white space only, \<open>parse_input\<close> raises \<open>ValueError\<close>
  outside every handler; the exception leaves \<open>main\<close>, and the lines that follow are not
  read.
\<close>

theorem C8_empty_line_ends_session:
  "main_step book [] = Crashed (ValueError (ustr ''not enough values to unpack (expected at least 1, got 0)'')) []
   \<and> main_loop book ([] # ls) out
       = Crashed (ValueError (ustr ''not enough values to unpack (expected at least 1, got 0)'')) out
   \<and> main_loop [] [''   '', ''hello''] []
       = Crashed (ValueError (ustr ''not enough values to unpack (expected at least 1, got 0)'')) []"
  by (simp add: main_step_def parse_input_def str_split_def isspace_def)

subsection \<open>The commands \<open>add\<close> and \<open>change\<close>\<close>

lemma map_of_dict_set: "map_of (dict_set k v kvs) = (map_of kvs)(k \<mapsto> v)"
  by (induction kvs) (auto simp add: fun_eq_iff)

lemma dict_set_absent: "map_of kvs k = None \<Longrightarrow> dict_set k v kvs = kvs @ [(k, v)]"
  by (induction kvs) (auto split: if_splits)

lemma dict_set_last: "map_of kvs k = None \<Longrightarrow> dict_set k v' (kvs @ [(k, v)]) = kvs @ [(k, v')]"
  by (induction kvs) (auto split: if_splits)

lemma Phone_init_value: "Phone_init p = Inr ph \<Longrightarrow> ph = PhoneObj p"
  by (auto simp add: Phone_init_def Phone_value_setter_def split: if_splits)

lemma valid_phone_init: "valid_phone p \<Longrightarrow> Phone_init p = Inr (PhoneObj p)"
  by (auto simp add: valid_phone_def dest: Phone_init_value split: sum.splits)

lemma add_phone_loop_valid:
  "list_all valid_phone ps \<Longrightarrow> add_phone_loop r ps = (None, r\<lparr>phones := phones r @ map PhoneObj ps\<rparr>)"
  by (induction ps arbitrary: r) (simp_all add: add_phone_def valid_phone_init)

text \<open>
  Claim C5: with at least one phone given and every phone accepted by \<open>Phone\<close>, the command
  \<open>add\<close> on a name that the book does not have puts at the end of the book a record of
  that name with exactly the given phones, in the order given, and no birthday; on a name
  that the book has, it keeps the record in its place, with the given phones appended to
  the phones it had.
\<close>

theorem C5_add_contact:
  "ps \<noteq> [] \<and> list_all valid_phone ps \<longrightarrow>
     (find_record book nm = None \<longrightarrow>
        add_contact (nm # ps) book
          = (Inr msg_contact_added,
             book @ [(nm, \<lparr>name = nm, phones = map PhoneObj ps, birthday = None\<rparr>)])
        \<and> map Phone_str (map PhoneObj ps) = ps)
     \<and> (\<forall>r. find_record book nm = Some r \<longrightarrow>
        add_contact (nm # ps) book
          = (Inr msg_contact_updated, dict_set nm (r\<lparr>phones := phones r @ map PhoneObj ps\<rparr>) book)
        \<and> find_record (dict_set nm (r\<lparr>phones := phones r @ map PhoneObj ps\<rparr>) book) nm
          = Some (r\<lparr>phones := phones r @ map PhoneObj ps\<rparr>))"
proof (intro impI conjI allI)
  assume h: "ps \<noteq> [] \<and> list_all valid_phone ps"
  then have len: "\<not> length (nm # ps) < 2"
    by (cases ps) simp_all
  {
    assume "find_record book nm = None"
    then have none: "map_of book nm = None"
      by (simp add: find_record_def)
    show "add_contact (nm # ps) book
          = (Inr msg_contact_added,
             book @ [(nm, \<lparr>name = nm, phones = map PhoneObj ps, birthday = None\<rparr>)])"
      using h len none
      by (simp add: add_contact_def add_contact_body_def find_record_def add_record_def
          Record_init_def add_phone_loop_valid dict_set_absent dict_set_last input_error_def)
  }
  show "map Phone_str (map PhoneObj ps) = ps"
    by (induction ps) (simp_all add: Phone_str_def)
  {
    fix r
    assume some: "find_record book nm = Some r"
    show "add_contact (nm # ps) book
          = (Inr msg_contact_updated, dict_set nm (r\<lparr>phones := phones r @ map PhoneObj ps\<rparr>) book)"
      using h len some
      by (simp add: add_contact_def add_contact_body_def add_phone_loop_valid input_error_def)
    show "find_record (dict_set nm (r\<lparr>phones := phones r @ map PhoneObj ps\<rparr>) book) nm
          = Some (r\<lparr>phones := phones r @ map PhoneObj ps\<rparr>)"
      by (simp add: find_record_def map_of_dict_set)
  }
qed

theorem C5_add_contact_witness:
  "add_contact [''bob'', ''0501234567'', ''0671234567''] [(''ann'', Record_init ''ann'')]
     = (Inr msg_contact_added,
        [(''ann'', Record_init ''ann''),
         (''bob'', \<lparr>name = ''bob'', phones = [PhoneObj ''0501234567'', PhoneObj ''0671234567''],
            birthday = None\<rparr>)])
   \<and> add_contact [''ann'', ''0931234567'']
        [(''ann'', \<lparr>name = ''ann'', phones = [PhoneObj ''0501234567''], birthday = None\<rparr>),
         (''bob'', Record_init ''bob'')]
     = (Inr msg_contact_updated,
        [(''ann'', \<lparr>name = ''ann'', phones = [PhoneObj ''0501234567'', PhoneObj ''0931234567''],
            birthday = None\<rparr>),
         (''bob'', Record_init ''bob'')])"
proof -
  have v: "valid_phone ''0501234567''" "valid_phone ''0671234567''" "valid_phone ''0931234567''"
    by (simp_all add: valid_phone_def Phone_init_def Phone_value_setter_def str_isdigit_def
        isdigit_def)
  have new: "find_record [(''ann'', Record_init ''ann'')] ''bob'' = None"
    by (simp add: find_record_def)
  have old: "find_record
        [(''ann'', \<lparr>name = ''ann'', phones = [PhoneObj ''0501234567''], birthday = None\<rparr>),
         (''bob'', Record_init ''bob'')] ''ann''
      = Some \<lparr>name = ''ann'', phones = [PhoneObj ''0501234567''], birthday = None\<rparr>"
    by (simp add: find_record_def)
  show ?thesis
    using v new old
      C5_add_contact [of "[''0501234567'', ''0671234567'']" "[(''ann'', Record_init ''ann'')]"
        "''bob''"]
      C5_add_contact [of "[''0931234567'']"
        "[(''ann'', \<lparr>name = ''ann'', phones = [PhoneObj ''0501234567''], birthday = None\<rparr>),
          (''bob'', Record_init ''bob'')]" "''ann''"]
    by simp
qed

text \<open>
  Claim C6: on a book that has the name, the command \<open>change\<close> with a phone that \<open>Phone\<close>
  accepts leaves under that name the same record with exactly one phone, of the given
  value, whatever phones it had; on a book that does not have the name, the handler
  raises \<open>KeyError\<close>, which becomes the text returned, and the book is unchanged.
\<close>

theorem C6_change_contact:
  "(\<forall>r. find_record book nm = Some r \<and> valid_phone p \<longrightarrow>
      change_contact [nm, p] book
        = (Inr msg_contact_changed, dict_set nm (r\<lparr>phones := [PhoneObj p]\<rparr>) book)
      \<and> find_record (dict_set nm (r\<lparr>phones := [PhoneObj p]\<rparr>) book) nm
        = Some (r\<lparr>phones := [PhoneObj p]\<rparr>)
      \<and> map Phone_str (phones (r\<lparr>phones := [PhoneObj p]\<rparr>)) = [p])
   \<and> (find_record book nm = None \<longrightarrow>
      change_contact_body [nm, p] book = (Inl (KeyError (msg_not_found nm)), book)
      \<and> change_contact [nm, p] book = (Inr (py_repr (msg_not_found nm)), book))"
  by (auto simp add: change_contact_def change_contact_body_def input_error_def valid_phone_init
      find_record_def map_of_dict_set Phone_str_def)

theorem C6_change_contact_witness:
  "change_contact [''ann'', ''0931234567'']
        [(''ann'', \<lparr>name = ''ann'', phones = [PhoneObj ''0501234567'', PhoneObj ''0671234567''],
            birthday = None\<rparr>)]
     = (Inr msg_contact_changed,
        [(''ann'', \<lparr>name = ''ann'', phones = [PhoneObj ''0931234567''], birthday = None\<rparr>)])
   \<and> change_contact_body [''bob'', ''0931234567''] [(''ann'', Record_init ''ann'')]
     = (Inl (KeyError (msg_not_found ''bob'')), [(''ann'', Record_init ''ann'')])"
proof -
  have v: "valid_phone ''0931234567''"
    by (simp add: valid_phone_def Phone_init_def Phone_value_setter_def str_isdigit_def
        isdigit_def)
  have old: "find_record
        [(''ann'', \<lparr>name = ''ann'', phones = [PhoneObj ''0501234567'', PhoneObj ''0671234567''],
            birthday = None\<rparr>)] ''ann''
      = Some \<lparr>name = ''ann'', phones = [PhoneObj ''0501234567'', PhoneObj ''0671234567''],
            birthday = None\<rparr>"
    by (simp add: find_record_def)
  have new: "find_record [(''ann'', Record_init ''ann'')] ''bob'' = None"
    by (simp add: find_record_def)
  show ?thesis
    using v old new
      C6_change_contact [of
        "[(''ann'', \<lparr>name = ''ann'', phones = [PhoneObj ''0501234567'', PhoneObj ''0671234567''],
            birthday = None\<rparr>)]" "''ann''" "''0931234567''"]
      C6_change_contact [of "[(''ann'', Record_init ''ann'')]" "''bob''" "''0931234567''"]
    by simp
qed

subsection \<open>Errors at the boundary of the commands\<close>

lemma Phone_init_error: "Phone_init p = Inl e \<Longrightarrow> command_error e"
  by (auto simp add: Phone_init_def Phone_value_setter_def command_error_def split: if_splits)

lemma date_new_error: "date_new y m d = Inl e \<Longrightarrow> command_error e"
  by (auto simp add: date_new_def command_error_def split: if_splits)

lemma strptime_dmY_error: "strptime_dmY s = Inl e \<Longrightarrow> command_error e"
  by (auto simp add: strptime_dmY_def command_error_def dest: date_new_error
      split: list.splits prod.splits if_splits)

lemma Birthday_init_error: "Birthday_init s = Inl e \<Longrightarrow> command_error e"
  by (auto simp add: Birthday_init_def command_error_def dest: strptime_dmY_error
      split: sum.splits exc.splits)

lemma add_phone_loop_error: "add_phone_loop r ps = (Some e, r') \<Longrightarrow> command_error e"
  by (induction ps arbitrary: r)
    (auto simp add: add_phone_def dest: Phone_init_error split: sum.splits)

lemma input_error_returns:
  "(\<And>e. fst res = Inl e \<Longrightarrow> command_error e) \<Longrightarrow> returns (input_error res)"
  by (cases res) (auto simp add: input_error_def returns_def command_error_def
      split: sum.splits exc.splits)

lemma add_contact_returns: "returns (add_contact args book)"
  unfolding add_contact_def
  by (rule input_error_returns)
    (auto simp add: add_contact_body_def command_error_def Let_def
      dest: add_phone_loop_error split: option.splits prod.splits if_splits)

lemma change_contact_returns: "returns (change_contact args book)"
  unfolding change_contact_def
  by (rule input_error_returns)
    (auto simp add: change_contact_body_def command_error_def Let_def
      dest: Phone_init_error split: option.splits sum.splits if_splits)

lemma show_contacts_returns: "returns (show_contacts args book)"
  unfolding show_contacts_def
  by (rule input_error_returns)
    (auto simp add: show_contacts_body_def command_error_def Let_def
      split: option.splits if_splits)

lemma show_all_contacts_returns: "returns (show_all_contacts book)"
  unfolding show_all_contacts_def
  by (rule input_error_returns) (auto simp add: show_all_contacts_body_def split: if_splits)

lemma add_birthday_cmd_returns: "returns (add_birthday_cmd args book)"
  unfolding add_birthday_cmd_def
  by (rule input_error_returns)
    (auto simp add: add_birthday_body_def add_birthday_def command_error_def Let_def
      dest: Birthday_init_error split: option.splits sum.splits if_splits)

lemma show_birthday_returns: "returns (show_birthday args book)"
  unfolding show_birthday_def
  by (rule input_error_returns)
    (auto simp add: show_birthday_body_def command_error_def Let_def
      split: option.splits if_splits)

lemma all_birthdays_returns: "returns (all_birthdays book)"
  unfolding all_birthdays_def
  by (rule input_error_returns) (auto simp add: all_birthdays_body_def Let_def split: if_splits)

lemma show_outcome_continues: "returns res \<Longrightarrow> \<exists>b printed. show_outcome res = Continue b printed"
  by (cases res) (auto simp add: returns_def show_outcome_def split: sum.splits)

text \<open>
  Claim C7: the wrapper turns a \<open>ValueError\<close> (a malformed phone or birthday, a wrong
  number of arguments), a \<open>KeyError\<close> (an unknown name) and an \<open>IndexError\<close> raised by a
  handler into the text \<open>str(e)\<close>; each of the seven wrapped handlers returns a text on
  all arguments and books; and on a line whose first token is not \<open>close\<close> or \<open>exit\<close> the
  turn of the loop ends with the loop going on.
\<close>

theorem C7_command_errors_become_messages:
  "(command_error e \<longrightarrow> input_error (Inl e, book) = (Inr (str_exc e), book))
   \<and> returns (add_contact args book) \<and> returns (change_contact args book)
   \<and> returns (show_contacts args book) \<and> returns (show_all_contacts book)
   \<and> returns (add_birthday_cmd args book) \<and> returns (show_birthday args book)
   \<and> returns (all_birthdays book)
   \<and> (parse_input user_input = Inr (command, args) \<and> command \<noteq> ''close'' \<and> command \<noteq> ''exit''
        \<longrightarrow> (\<exists>book' printed. main_step book user_input = Continue book' printed))"
proof (intro conjI impI)
  assume "command_error e"
  then show "input_error (Inl e, book) = (Inr (str_exc e), book)"
    by (cases e) (simp_all add: command_error_def input_error_def)
next
  assume h: "parse_input user_input = Inr (command, args) \<and> command \<noteq> ''close'' \<and> command \<noteq> ''exit''"
  show "\<exists>book' printed. main_step book user_input = Continue book' printed"
    using h show_outcome_continues [OF add_contact_returns [of args book]]
      show_outcome_continues [OF change_contact_returns [of args book]]
      show_outcome_continues [OF show_contacts_returns [of args book]]
      show_outcome_continues [OF add_birthday_cmd_returns [of args book]]
      show_outcome_continues [OF show_birthday_returns [of args book]]
      show_outcome_continues [OF all_birthdays_returns [of book]]
    by (simp add: main_step_def)
qed (rule add_contact_returns change_contact_returns show_contacts_returns
      show_all_contacts_returns add_birthday_cmd_returns show_birthday_returns
      all_birthdays_returns)+

theorem C7_command_errors_become_messages_witness:
  "input_error (Inl (KeyError (msg_not_found ''bob'')), []) = (Inr (py_repr (msg_not_found ''bob'')), [])
   \<and> (\<exists>book' printed. main_step [] ''add-birthday bob 31.02.2020'' = Continue book' printed)"
proof -
  have e: "command_error (KeyError (msg_not_found ''bob''))"
    by (simp add: command_error_def)
  have p: "parse_input ''add-birthday bob 31.02.2020'' = Inr (''add-birthday'', [''bob'', ''31.02.2020''])"
    by code_simp
  show ?thesis
    using e p
      C7_command_errors_become_messages [of "KeyError (msg_not_found ''bob'')" "[]"
        "[''bob'', ''31.02.2020'']" "''add-birthday bob 31.02.2020''" "''add-birthday''"]
    by simp
qed

subsection \<open>Saving and loading\<close>

text \<open>
  Reading a file back after \<open>save_data\<close> wrote it hands to \<open>pickle.load\<close> what
  \<open>pickle.dump\<close> made of the book, for any file name and any other files; and a session
  that ends at \<open>close\<close> or \<open>exit\<close> leaves under the name that \<open>load_data\<close> reads by default
  what \<open>pickle.dump\<close> made of its last book. Whether \<open>pickle.load\<close> then gives the book
  back is a property of the library, which is not modelled here.
\<close>

lemma load_data_save_data:
  "load_data load filename (save_data dump book filename files) = load (dump book)"
  by (simp add: load_data_def save_data_def)

lemma main_saves_last_book:
  "main dump load files lines = (Exited book printed, files')
     \<Longrightarrow> load_data load ''addressbook.pkl'' files' = load (dump book)"
  by (auto simp add: load_data_def save_data_def main_def split: sum.splits step.splits)

subsection \<open>Birthday construction\<close>






















































end
